theory Spec2Isabelle
  imports Complex_Main
begin

section \<open>MyPartition: the offset space of one partition\<close>

text \<open>
  The class \<^verbatim>\<open>MyPartition\<close> of \<^verbatim>\<open>synthetic_sdfn_streaming.py\<close> has three integer
  fields. Python integers are unbounded, so they are \<^typ>\<open>int\<close>. The field \<^verbatim>\<open>id\<close> and the
  method \<^verbatim>\<open>size\<close> carry the suffix \<open>_p\<close>, their plain names being constants of HOL.
\<close>

record MyPartition =
  id_p :: int
  last_offset :: int
  committed_offset :: int

text \<open>
  \<^verbatim>\<open>poll\<close> is a method on a mutable object: it returns its result together with the
  object as it leaves it. A bare \<^verbatim>\<open>return\<close> gives \<^verbatim>\<open>None\<close>.
\<close>

definition poll :: "MyPartition \<Rightarrow> int option \<times> MyPartition" where
  "poll self =
     (let offset = committed_offset self + 1 in
      if offset > last_offset self then (None, self) else (Some offset, self))"

definition commit :: "MyPartition \<Rightarrow> MyPartition" where
  "commit self = self\<lparr>committed_offset := committed_offset self + 1\<rparr>"

definition size_p :: "MyPartition \<Rightarrow> int" where
  "size_p self = last_offset self + 1"

definition get_committed_position :: "MyPartition \<Rightarrow> int" where
  "get_committed_position self = committed_offset self"

definition add_new_messages :: "MyPartition \<Rightarrow> int \<Rightarrow> MyPartition" where
  "add_new_messages self n = self\<lparr>last_offset := last_offset self + n\<rparr>"

section \<open>Offset ranges and the restriction tracker\<close>

text \<open>
  \<^verbatim>\<open>OffsetRange\<close> and \<^verbatim>\<open>OffsetRestrictionTracker\<close> are imported from \<^verbatim>\<open>apache_beam\<close>; the
  file uses the fields \<^verbatim>\<open>start\<close> and \<^verbatim>\<open>stop\<close> of a range and the fields \<^verbatim>\<open>_range\<close>,
  \<^verbatim>\<open>_last_claim_attempt\<close> and \<^verbatim>\<open>_checkpointed\<close> of a tracker. \<^verbatim>\<open>_range\<close> is \<open>range_t\<close> here,
  \<open>range\<close> being a constant of HOL, and the leading underscores are dropped.
\<close>

record OffsetRange =
  start :: int
  stop :: int

record MyPartitionRestrictionTracker =
  range_t :: OffsetRange
  last_claim_attempt :: "int option"
  checkpointed :: bool

text \<open>
  Modelled from the spec: the half-open interval \<open>[start, stop)\<close> that an \<^verbatim>\<open>OffsetRange\<close>
  stands for (its class is not in the file).
\<close>

definition in_range :: "OffsetRange \<Rightarrow> int \<Rightarrow> bool" where
  "in_range r x = (start r \<le> x \<and> x < stop r)"

text \<open>
  Modelled from the spec: \<^verbatim>\<open>OffsetRange.split_at\<close>, which is not in the file. Splitting
  \<open>[start, stop)\<close> at a split point gives the retained \<open>[start, split_point)\<close> and the
  residual \<open>[split_point, stop)\<close>.
\<close>

definition split_at :: "OffsetRange \<Rightarrow> int \<Rightarrow> OffsetRange \<times> OffsetRange" where
  "split_at self split_pos =
     (\<lparr>start = start self, stop = split_pos\<rparr>, \<lparr>start = split_pos, stop = stop self\<rparr>)"

text \<open>
  Modelled from the spec: the constructor of the tracker, which \<^verbatim>\<open>create_tracker\<close> (lines
  116 and 117) calls and which is not in the file. A fresh tracker owns the range it is
  given, has no claim yet and is not checkpointed.
\<close>

definition create_tracker :: "OffsetRange \<Rightarrow> MyPartitionRestrictionTracker" where
  "create_tracker restriction =
     \<lparr>range_t = restriction, last_claim_attempt = None, checkpointed = False\<rparr>"

text \<open>
  Modelled from the spec: \<^verbatim>\<open>try_claim\<close>, which \<^verbatim>\<open>MyPartitionRestrictionTracker\<close> inherits
  and the file does not define. It succeeds only if the offset is strictly greater than
  \<^verbatim>\<open>last_claim_attempt\<close> (or at least \<^verbatim>\<open>start\<close> if there is no prior claim) and below
  \<^verbatim>\<open>stop\<close>; on success it records the offset as \<^verbatim>\<open>last_claim_attempt\<close> and returns
  success; otherwise it returns failure.
\<close>

definition try_claim ::
    "MyPartitionRestrictionTracker \<Rightarrow> int \<Rightarrow> bool \<times> MyPartitionRestrictionTracker" where
  "try_claim self position =
     (if (case last_claim_attempt self of
            None \<Rightarrow> start (range_t self) \<le> position
          | Some a \<Rightarrow> a < position)
         \<and> position < stop (range_t self)
      then (True, self\<lparr>last_claim_attempt := Some position\<rparr>)
      else (False, self))"

text \<open>
  \<^verbatim>\<open>MyPartitionRestrictionTracker.try_split\<close>, lines 44 to 55. The fraction is a Python
  float of which only the test \<^verbatim>\<open>== 0\<close> is used. Falling off the end of the method returns
  \<^verbatim>\<open>None\<close>; the tracker is returned next to the result.
\<close>

definition try_split ::
    "MyPartitionRestrictionTracker \<Rightarrow> real
       \<Rightarrow> (OffsetRange \<times> OffsetRange) option \<times> MyPartitionRestrictionTracker" where
  "try_split self fraction_of_remainder =
     (if \<not> checkpointed self then
        let cur = (case last_claim_attempt self of
                     None \<Rightarrow> start (range_t self) - 1
                   | Some a \<Rightarrow> a);
            split_point = cur + 1
        in if split_point \<le> stop (range_t self) then
             let self1 = (if fraction_of_remainder = 0
                          then self\<lparr>checkpointed := True\<rparr> else self);
                 (retained, residual_range) = split_at (range_t self1) split_point;
                 self2 = self1\<lparr>range_t := retained\<rparr>
             in (Some (range_t self2, residual_range), self2)
           else (None, self)
      else (None, self))"

definition is_bounded :: "MyPartitionRestrictionTracker \<Rightarrow> bool" where
  "is_bounded self = False"

text \<open>A run of \<^verbatim>\<open>try_split\<close> calls on one tracker, the results in the order of the calls.\<close>

fun try_split_seq ::
    "MyPartitionRestrictionTracker \<Rightarrow> real list
       \<Rightarrow> (OffsetRange \<times> OffsetRange) option list \<times> MyPartitionRestrictionTracker" where
  "try_split_seq self [] = ([], self)"
| "try_split_seq self (f # fs) =
     (let (r, self1) = try_split self f;
          (rs, self2) = try_split_seq self1 fs
      in (r # rs, self2))"

text \<open>
  \<^verbatim>\<open>sys.maxsize\<close>, the largest index of the platform: \<open>2 ^ 63 - 1\<close> on a 64-bit CPython.
\<close>

definition sys_maxsize :: int where
  "sys_maxsize = 2 ^ 63 - 1"

text \<open>
  \<^verbatim>\<open>ProcessPartitionsSplittableDoFn.initial_restriction\<close>, lines 119 to 123. The test
  \<^verbatim>\<open>committed_offset is None\<close> never fires on a \<^verbatim>\<open>MyPartition\<close>, whose committed offset is
  an integer; it is kept as the \<open>None\<close> case below.
\<close>

definition initial_restriction :: "MyPartition \<Rightarrow> OffsetRange" where
  "initial_restriction element =
     (let committed_offset = Some (get_committed_position element);
          committed_offset = (case committed_offset of None \<Rightarrow> - 1 | Some c \<Rightarrow> c)
      in \<lparr>start = committed_offset + 1, stop = sys_maxsize\<rparr>)"

section \<open>The processing loop\<close>

text \<open>
  The constants of \<^verbatim>\<open>ProcessPartitionsSplittableDoFn\<close> that the loop reads. The
  probability is a float in the source and a real here.
\<close>

definition MIN_ADD_NEW_MSGS :: int where
  "MIN_ADD_NEW_MSGS = 20"

definition MAX_ADD_NEW_MSGS :: int where
  "MAX_ADD_NEW_MSGS = 100"

definition PROB_NEW_MSGS :: real where
  "PROB_NEW_MSGS = 1 / 100"

definition MAX_EMPTY_POLLS :: int where
  "MAX_EMPTY_POLLS = 10"

text \<open>
  The random draws of one iteration are an input: \<open>coin\<close> is what \<^verbatim>\<open>random.random()\<close>
  returns and \<open>pick\<close> selects what \<^verbatim>\<open>random.randint\<close> returns, a value between its two
  bounds, both included.
\<close>

record entropy =
  coin :: real
  pick :: int

definition randint :: "int \<Rightarrow> int \<Rightarrow> int \<Rightarrow> int" where
  "randint a b e = a + e mod (b - a + 1)"

text \<open>
  The method \<^verbatim>\<open>_add_new_messages\<close> of the DoFn, line 113; the prefix tells it from the
  method of \<^verbatim>\<open>MyPartition\<close> that it calls.
\<close>

definition dofn_add_new_messages :: "MyPartition \<Rightarrow> entropy \<Rightarrow> MyPartition" where
  "dofn_add_new_messages element e =
     add_new_messages element (randint MIN_ADD_NEW_MSGS MAX_ADD_NEW_MSGS (pick e))"

text \<open>
  How an f-string prints an integer: its decimal digits, after a minus sign when it is
  negative.
\<close>

fun str_nat :: "nat \<Rightarrow> string" where
  "str_nat n =
     (if n < 10 then [''0123456789'' ! n]
      else str_nat (n div 10) @ [''0123456789'' ! (n mod 10)])"

declare str_nat.simps [simp del]

definition str_int :: "int \<Rightarrow> string" where
  "str_int i = (if i < 0 then ''-'' @ str_nat (nat (- i)) else str_nat (nat i))"

text \<open>
  What the loop of \<^verbatim>\<open>process\<close> holds between two iterations: the partition, the tracker
  and the counter of empty polls. The tracker reaches \<^verbatim>\<open>process\<close> as a parameter, so its
  type is a type variable and its \<^verbatim>\<open>try_claim\<close> an argument \<open>claim\<close>.
\<close>

record 't frame =
  element :: MyPartition
  tracker :: 't
  n_times_empty :: int

text \<open>
  An iteration either leaves the generator by \<^verbatim>\<open>return\<close>, or goes on to the next one
  after yielding at most one pair.
\<close>

datatype 't iteration =
    Return "'t frame"
  | Continue "(int \<times> string) option" "'t frame"

text \<open>
  Lines 98 to 109: count an empty poll, then add messages when the polls have been empty
  for too long or when the coin says so. Logging changes no state and is left out.
\<close>

definition simulate_new_messages ::
    "entropy \<Rightarrow> int option \<Rightarrow> 't frame \<Rightarrow> 't frame" where
  "simulate_new_messages e offset_to_process s =
     (let s1 = (if offset_to_process = None
                then s\<lparr>n_times_empty := n_times_empty s + 1\<rparr> else s)
      in if n_times_empty s1 > MAX_EMPTY_POLLS
         then s1\<lparr>element := dofn_add_new_messages (element s1) e, n_times_empty := 0\<rparr>
         else if coin e \<le> PROB_NEW_MSGS
         then s1\<lparr>element := dofn_add_new_messages (element s1) e\<rparr>
         else s1)"

text \<open>
  The body of \<^verbatim>\<open>while True\<close>, lines 89 to 111. The sleep that ends it changes no state
  and is left out.
\<close>

definition process_iter ::
    "('t \<Rightarrow> int \<Rightarrow> bool \<times> 't) \<Rightarrow> entropy \<Rightarrow> 't frame \<Rightarrow> 't iteration" where
  "process_iter claim e s =
     (let (offset_to_process, element1) = poll (element s);
          s1 = s\<lparr>element := element1\<rparr>
      in case offset_to_process of
           Some offset \<Rightarrow>
             (let (claimed, tracker1) = claim (tracker s1) offset;
                  s2 = s1\<lparr>tracker := tracker1\<rparr>
              in if claimed then
                   let msg = ''Processed: '' @ str_int offset @ ''   Last: ''
                               @ str_int (size_p (element s2));
                       out = (id_p (element s2), msg);
                       s3 = s2\<lparr>element := commit (element s2)\<rparr>
                   in Continue (Some out) (simulate_new_messages e offset_to_process s3)
                 else Return s2)
         | None \<Rightarrow> Continue None (simulate_new_messages e offset_to_process s1))"

text \<open>
  The loop runs as long as it is given random draws, one element of the list for each
  iteration, and stops before that when an iteration returns. It gives the pairs yielded,
  in order, the last frame, and whether the generator has returned.
\<close>

fun process_loop ::
    "('t \<Rightarrow> int \<Rightarrow> bool \<times> 't) \<Rightarrow> entropy list \<Rightarrow> 't frame
       \<Rightarrow> (int \<times> string) list \<times> 't frame \<times> bool" where
  "process_loop claim [] s = ([], s, False)"
| "process_loop claim (e # es) s =
     (case process_iter claim e s of
        Return s1 \<Rightarrow> ([], s1, True)
      | Continue out s1 \<Rightarrow>
          (let (outs, s2, returned) = process_loop claim es s1
           in ((case out of None \<Rightarrow> outs | Some kv \<Rightarrow> kv # outs), s2, returned)))"

definition process ::
    "('t \<Rightarrow> int \<Rightarrow> bool \<times> 't) \<Rightarrow> entropy list \<Rightarrow> MyPartition \<Rightarrow> 't
       \<Rightarrow> (int \<times> string) list \<times> 't frame \<times> bool" where
  "process claim es element0 tracker0 =
     process_loop claim es \<lparr>element = element0, tracker = tracker0, n_times_empty = 0\<rparr>"

section \<open>Properties of MyPartition\<close>

lemma commit_funpow:
  "(commit ^^ k) p = p\<lparr>committed_offset := committed_offset p + int k\<rparr>"
  by (induction k) (simp_all add: commit_def)

text \<open>
  C4. For every partition state, \<^verbatim>\<open>poll()\<close> returns \<^verbatim>\<open>committed_offset + 1\<close> when that
  value is at most \<^verbatim>\<open>last_offset\<close> and \<^verbatim>\<open>None\<close> otherwise; so whatever it returns is never
  greater than \<^verbatim>\<open>last_offset\<close>.
\<close>

theorem poll_result:
  "fst (poll p) =
     (if committed_offset p + 1 \<le> last_offset p then Some (committed_offset p + 1) else None)
   \<and> (\<forall>v. fst (poll p) = Some v \<longrightarrow> v \<le> last_offset p)"
  by (simp add: poll_def Let_def)

theorem poll_result_witness:
  "fst (poll \<lparr>id_p = 0, last_offset = 5, committed_offset = 2\<rparr>) = Some 3 \<and> (3::int) \<le> 5
   \<and> fst (poll \<lparr>id_p = 0, last_offset = 5, committed_offset = 5\<rparr>) = None"
  using poll_result [of "\<lparr>id_p = 0, last_offset = 5, committed_offset = 2\<rparr>"]
    poll_result [of "\<lparr>id_p = 0, last_offset = 5, committed_offset = 5\<rparr>"]
  by simp

text \<open>
  C5. \<^verbatim>\<open>commit()\<close> advances \<^verbatim>\<open>committed_offset\<close> by exactly 1 and touches nothing else;
  after \<open>k\<close> commits from \<open>c0\<close> the committed offset is \<open>c0 + k\<close>; and the \<^verbatim>\<open>poll()\<close> right
  after a commit returns the committed offset from before the commit plus 2, or \<^verbatim>\<open>None\<close>:
  a value it returns is above what \<^verbatim>\<open>poll()\<close> returned before the commit.
\<close>

theorem commit_advances:
  "commit p = p\<lparr>committed_offset := committed_offset p + 1\<rparr>
   \<and> committed_offset ((commit ^^ k) p) = committed_offset p + int k
   \<and> (fst (poll (commit p)) = Some (committed_offset p + 2) \<or> fst (poll (commit p)) = None)
   \<and> (\<forall>v w. fst (poll (commit p)) = Some v \<longrightarrow> fst (poll p) = Some w \<longrightarrow> w < v)
   \<and> (\<forall>v. fst (poll (commit p)) = Some v \<longrightarrow> committed_offset p + 1 < v)"
  by (simp add: commit_funpow) (auto simp add: commit_def poll_def Let_def)

theorem commit_advances_witness:
  "committed_offset ((commit ^^ 3) \<lparr>id_p = 0, last_offset = 5, committed_offset = 2\<rparr>) = 5
   \<and> fst (poll (commit \<lparr>id_p = 0, last_offset = 5, committed_offset = 2\<rparr>)) = Some 4
   \<and> fst (poll \<lparr>id_p = 0, last_offset = 5, committed_offset = 2\<rparr>) = Some 3
   \<and> (3::int) < 4"
  using commit_advances [of "\<lparr>id_p = 0, last_offset = 5, committed_offset = 2\<rparr>" 3]
  by (simp add: commit_def poll_def)

text \<open>
  C6. \<^verbatim>\<open>add_new_messages(n)\<close> increases \<^verbatim>\<open>last_offset\<close> by exactly \<open>n\<close> and touches nothing
  else, and \<^verbatim>\<open>size()\<close> equals \<^verbatim>\<open>last_offset + 1\<close> before and after the call. This holds for
  every \<open>n\<close>, in particular for every \<open>n > 0\<close>.
\<close>

theorem add_new_messages_grows:
  "add_new_messages p n = p\<lparr>last_offset := last_offset p + n\<rparr>
   \<and> last_offset (add_new_messages p n) = last_offset p + n
   \<and> size_p p = last_offset p + 1
   \<and> size_p (add_new_messages p n) = last_offset (add_new_messages p n) + 1
   \<and> size_p (add_new_messages p n) = size_p p + n"
  by (simp add: add_new_messages_def size_p_def)

text \<open>
  C10. \<^verbatim>\<open>poll()\<close> is read-only: it leaves the partition as it found it, so any number of
  polls in a row return what the first one returned.
\<close>

theorem poll_read_only:
  "snd (poll p) = p
   \<and> ((\<lambda>q. snd (poll q)) ^^ n) p = p
   \<and> fst (poll (((\<lambda>q. snd (poll q)) ^^ n) p)) = fst (poll p)"
proof -
  have one: "\<And>q. snd (poll q) = q"
    by (simp add: poll_def Let_def)
  have many: "((\<lambda>q. snd (poll q)) ^^ n) p = p"
    by (induction n) (simp_all add: one)
  from one [of p] many show ?thesis
    by (simp only: simp_thms)
qed

section \<open>Properties of the restriction tracker\<close>

lemma try_split_checkpointed: "checkpointed t \<Longrightarrow> try_split t f = (None, t)"
  by (simp add: try_split_def)

lemma try_split_seq_checkpointed:
  "checkpointed t \<Longrightarrow> try_split_seq t fs = (replicate (length fs) None, t)"
  by (induction fs) (simp_all add: try_split_checkpointed)

text \<open>
  C1, for a tracker that is not checkpointed. \<^verbatim>\<open>try_split(f)\<close> takes as split point
  \<^verbatim>\<open>last_claim_attempt + 1\<close> when a claim has occurred and \<^verbatim>\<open>start\<close> when none has. It
  refuses when the split point is above the \<^verbatim>\<open>stop\<close> of the range. Otherwise it narrows the
  range of the tracker to \<open>[start, split_point)\<close> and returns it with the residual
  \<open>[split_point, stop)\<close>; \<^verbatim>\<open>checkpointed\<close> becomes true exactly when \<open>f\<close> is 0. So the
  residual starts above the last claimed offset, ends at the original \<^verbatim>\<open>stop\<close> and does
  not start beyond it.
\<close>

theorem try_split_open:
  assumes "\<not> checkpointed t"
  shows "try_split t f =
     (let split_point = (case last_claim_attempt t of
                           None \<Rightarrow> start (range_t t) | Some a \<Rightarrow> a + 1);
          retained = \<lparr>start = start (range_t t), stop = split_point\<rparr>;
          residual = \<lparr>start = split_point, stop = stop (range_t t)\<rparr>
      in if stop (range_t t) < split_point then (None, t)
         else (Some (retained, residual),
               t\<lparr>range_t := retained, checkpointed := (f = 0)\<rparr>))
   \<and> (\<forall>retained residual t'. try_split t f = (Some (retained, residual), t') \<longrightarrow>
          range_t t' = retained
        \<and> start retained = start (range_t t)
        \<and> stop retained = start residual
        \<and> stop residual = stop (range_t t)
        \<and> start residual \<le> stop (range_t t)
        \<and> (\<forall>a. last_claim_attempt t = Some a \<longrightarrow> a < start residual)
        \<and> last_claim_attempt t' = last_claim_attempt t)"
  using assms
  by (cases t) (auto simp add: try_split_def split_at_def Let_def split: option.splits)

theorem try_split_open_witness:
  "\<not> checkpointed \<lparr>range_t = \<lparr>start = 0, stop = 10\<rparr>, last_claim_attempt = Some 3,
       checkpointed = False\<rparr>
   \<and> try_split \<lparr>range_t = \<lparr>start = 0, stop = 10\<rparr>, last_claim_attempt = Some 3,
        checkpointed = False\<rparr> (1 / 2)
     = (Some (\<lparr>start = 0, stop = 4\<rparr>, \<lparr>start = 4, stop = 10\<rparr>),
        \<lparr>range_t = \<lparr>start = 0, stop = 4\<rparr>, last_claim_attempt = Some 3,
           checkpointed = False\<rparr>)
   \<and> (3::int) < start \<lparr>start = 4, stop = (10::int)\<rparr>"
  using try_split_open [of "\<lparr>range_t = \<lparr>start = 0, stop = 10\<rparr>,
      last_claim_attempt = Some 3, checkpointed = False\<rparr>" "1 / 2"]
  by (simp add: Let_def)

text \<open>
  C1 as it is stated speaks of every tracker state. On a checkpointed tracker whose split
  point 4 is not above its \<^verbatim>\<open>stop\<close> 10, \<^verbatim>\<open>try_split\<close> refuses and narrows nothing.
\<close>

theorem try_split_open_counterexample:
  "(3::int) + 1 \<le> 10
   \<and> try_split \<lparr>range_t = \<lparr>start = 0, stop = 10\<rparr>, last_claim_attempt = Some 3,
        checkpointed = True\<rparr> (1 / 2)
     = (None, \<lparr>range_t = \<lparr>start = 0, stop = 10\<rparr>, last_claim_attempt = Some 3,
          checkpointed = True\<rparr>)"
  by (simp add: try_split_def)

text \<open>
  C2. A successful \<^verbatim>\<open>try_split(0)\<close> leaves \<^verbatim>\<open>checkpointed\<close> true; and on a tracker whose
  \<^verbatim>\<open>checkpointed\<close> is true every \<^verbatim>\<open>try_split\<close>, with any fraction, is refused and leaves
  the tracker as it is, so that every later one of any run of calls is refused as well.
\<close>

theorem try_split_zero_checkpoints:
  "(\<forall>r t'. try_split t 0 = (Some r, t') \<longrightarrow>
       checkpointed t' \<and> (\<forall>g. try_split t' g = (None, t'))
       \<and> (\<forall>gs. try_split_seq t' gs = (replicate (length gs) None, t')))
   \<and> (checkpointed t \<longrightarrow> try_split t f = (None, t))
   \<and> (checkpointed t \<longrightarrow> try_split_seq t fs = (replicate (length fs) None, t))"
proof -
  have "checkpointed t'" if "try_split t 0 = (Some r, t')" for r t'
    using that by (auto simp add: try_split_def split_at_def Let_def split: if_splits)
  then show ?thesis
    by (simp add: try_split_checkpointed try_split_seq_checkpointed)
qed

theorem try_split_zero_checkpoints_witness:
  "try_split \<lparr>range_t = \<lparr>start = 0, stop = 10\<rparr>, last_claim_attempt = Some 3,
        checkpointed = False\<rparr> 0
     = (Some (\<lparr>start = 0, stop = 4\<rparr>, \<lparr>start = 4, stop = 10\<rparr>),
        \<lparr>range_t = \<lparr>start = 0, stop = 4\<rparr>, last_claim_attempt = Some 3,
           checkpointed = True\<rparr>)
   \<and> try_split \<lparr>range_t = \<lparr>start = 0, stop = 4\<rparr>, last_claim_attempt = Some 3,
        checkpointed = True\<rparr> (1 / 2)
     = (None, \<lparr>range_t = \<lparr>start = 0, stop = 4\<rparr>, last_claim_attempt = Some 3,
          checkpointed = True\<rparr>)
   \<and> try_split_seq \<lparr>range_t = \<lparr>start = 0, stop = 4\<rparr>, last_claim_attempt = Some 3,
        checkpointed = True\<rparr> [0, 1 / 2, 1]
     = ([None, None, None], \<lparr>range_t = \<lparr>start = 0, stop = 4\<rparr>,
          last_claim_attempt = Some 3, checkpointed = True\<rparr>)"
proof -
  let ?t0 = "\<lparr>range_t = \<lparr>start = 0, stop = 10\<rparr>, last_claim_attempt = Some 3,
    checkpointed = False\<rparr>"
  let ?t1 = "\<lparr>range_t = \<lparr>start = 0, stop = 4\<rparr>, last_claim_attempt = Some 3,
    checkpointed = True\<rparr>"
  have accepted: "try_split ?t0 0
      = (Some (\<lparr>start = 0, stop = 4\<rparr>, \<lparr>start = 4, stop = 10\<rparr>), ?t1)"
    by (simp add: try_split_def split_at_def)
  with try_split_zero_checkpoints [of ?t0 "1 / 2" "[]"] have flag: "checkpointed ?t1"
    by blast
  with try_split_zero_checkpoints [of ?t1 "1 / 2" "[0, 1 / 2, 1]"]
  have "try_split ?t1 (1 / 2) = (None, ?t1)"
    and "try_split_seq ?t1 [0, 1 / 2, 1] = (replicate (length [0, 1 / 2, 1 :: real]) None, ?t1)"
    by blast+
  with accepted show ?thesis
    by simp
qed

text \<open>
  C9. \<^verbatim>\<open>try_split\<close> is refused exactly when \<^verbatim>\<open>checkpointed\<close> is already true or the split
  point is above the \<^verbatim>\<open>stop\<close> of the range. A refused \<^verbatim>\<open>try_split\<close> returns \<^verbatim>\<open>None\<close> and
  leaves the whole tracker as it was: its range, its last claim attempt and its
  \<^verbatim>\<open>checkpointed\<close>, which a \<^verbatim>\<open>try_split(0)\<close> refused for being past \<^verbatim>\<open>stop\<close> does not set.
\<close>

theorem try_split_refused:
  "(fst (try_split t f) = None \<longleftrightarrow>
      checkpointed t
      \<or> stop (range_t t) < (case last_claim_attempt t of
                              None \<Rightarrow> start (range_t t) | Some a \<Rightarrow> a + 1))
   \<and> (fst (try_split t f) = None \<longrightarrow> try_split t f = (None, t))
   \<and> (fst (try_split t f) = None \<longrightarrow>
        range_t (snd (try_split t f)) = range_t t
        \<and> last_claim_attempt (snd (try_split t f)) = last_claim_attempt t
        \<and> checkpointed (snd (try_split t f)) = checkpointed t)"
  by (auto simp add: try_split_def split_at_def Let_def split: option.splits)

theorem try_split_refused_witness:
  "try_split \<lparr>range_t = \<lparr>start = 0, stop = 5\<rparr>, last_claim_attempt = Some 7,
        checkpointed = False\<rparr> 0
     = (None, \<lparr>range_t = \<lparr>start = 0, stop = 5\<rparr>, last_claim_attempt = Some 7,
          checkpointed = False\<rparr>)
   \<and> try_split \<lparr>range_t = \<lparr>start = 0, stop = 10\<rparr>, last_claim_attempt = None,
        checkpointed = True\<rparr> 1
     = (None, \<lparr>range_t = \<lparr>start = 0, stop = 10\<rparr>, last_claim_attempt = None,
          checkpointed = True\<rparr>)"
  using try_split_refused [of "\<lparr>range_t = \<lparr>start = 0, stop = 5\<rparr>,
      last_claim_attempt = Some 7, checkpointed = False\<rparr>" 0]
    try_split_refused [of "\<lparr>range_t = \<lparr>start = 0, stop = 10\<rparr>,
      last_claim_attempt = None, checkpointed = True\<rparr>" 1]
  by simp

text \<open>
  C3. \<^verbatim>\<open>try_claim(offset)\<close> succeeds only if the offset is strictly greater than the last
  claim attempt (or at least \<^verbatim>\<open>start\<close> when there is none) and below \<^verbatim>\<open>stop\<close>. On
  success it records the offset as \<^verbatim>\<open>last_claim_attempt\<close>; on failure it changes nothing.
  So once \<open>x\<close> is claimed, an attempt on any \<open>y \<le> x\<close> through the same tracker returns
  failure: right after the claim, and also later, since no attempt lowers the last claim.
\<close>

theorem try_claim_monotonic:
  "(fst (try_claim t x) \<longleftrightarrow>
      (case last_claim_attempt t of None \<Rightarrow> start (range_t t) \<le> x | Some a \<Rightarrow> a < x)
      \<and> x < stop (range_t t))
   \<and> (fst (try_claim t x) \<longrightarrow> snd (try_claim t x) = t\<lparr>last_claim_attempt := Some x\<rparr>)
   \<and> (\<not> fst (try_claim t x) \<longrightarrow> snd (try_claim t x) = t)
   \<and> (fst (try_claim t x) \<longrightarrow> y \<le> x \<longrightarrow> \<not> fst (try_claim (snd (try_claim t x)) y))
   \<and> (\<forall>a. last_claim_attempt t = Some a \<longrightarrow> y \<le> a \<longrightarrow> \<not> fst (try_claim t y))
   \<and> (\<forall>a. last_claim_attempt t = Some a \<longrightarrow>
          (\<exists>b. last_claim_attempt (snd (try_claim t x)) = Some b \<and> a \<le> b))"
  by (auto simp add: try_claim_def split: option.splits)

theorem try_claim_monotonic_witness:
  "try_claim \<lparr>range_t = \<lparr>start = 3, stop = 10\<rparr>, last_claim_attempt = None,
        checkpointed = False\<rparr> 3
     = (True, \<lparr>range_t = \<lparr>start = 3, stop = 10\<rparr>, last_claim_attempt = Some 3,
          checkpointed = False\<rparr>)
   \<and> try_claim \<lparr>range_t = \<lparr>start = 3, stop = 10\<rparr>, last_claim_attempt = Some 3,
        checkpointed = False\<rparr> 3
     = (False, \<lparr>range_t = \<lparr>start = 3, stop = 10\<rparr>, last_claim_attempt = Some 3,
          checkpointed = False\<rparr>)
   \<and> try_claim \<lparr>range_t = \<lparr>start = 3, stop = 10\<rparr>, last_claim_attempt = Some 3,
        checkpointed = False\<rparr> 10
     = (False, \<lparr>range_t = \<lparr>start = 3, stop = 10\<rparr>, last_claim_attempt = Some 3,
          checkpointed = False\<rparr>)"
  using try_claim_monotonic [of "\<lparr>range_t = \<lparr>start = 3, stop = 10\<rparr>,
      last_claim_attempt = None, checkpointed = False\<rparr>" 3 3]
    try_claim_monotonic [of "\<lparr>range_t = \<lparr>start = 3, stop = 10\<rparr>,
      last_claim_attempt = Some 3, checkpointed = False\<rparr>" 10 3]
  by (simp add: try_claim_def)

section \<open>Properties of the DoFn\<close>

text \<open>
  C7, with the upper end the code gives. \<^verbatim>\<open>initial_restriction(partition)\<close> returns the
  range that starts at the committed position of the partition plus one and stops at
  \<^verbatim>\<open>sys.maxsize\<close>: it holds the offsets from \<^verbatim>\<open>committed_offset + 1\<close> up to, and without,
  \<^verbatim>\<open>sys.maxsize\<close>.
\<close>

theorem initial_restriction_range:
  "initial_restriction p = \<lparr>start = committed_offset p + 1, stop = sys_maxsize\<rparr>
   \<and> (in_range (initial_restriction p) x \<longleftrightarrow> committed_offset p + 1 \<le> x \<and> x < sys_maxsize)"
  by (simp add: initial_restriction_def get_committed_position_def in_range_def)

text \<open>
  C7 as it is stated has the range unbounded above. The offset \<open>2 ^ 63 - 1\<close> is not below
  the committed position plus one of a partition committed at 2, and is outside its initial
  restriction.
\<close>

theorem initial_restriction_counterexample:
  "committed_offset \<lparr>id_p = 0, last_offset = 5, committed_offset = 2\<rparr> + 1
     \<le> 9223372036854775807
   \<and> \<not> in_range (initial_restriction \<lparr>id_p = 0, last_offset = 5, committed_offset = 2\<rparr>)
         9223372036854775807
   \<and> stop (initial_restriction \<lparr>id_p = 0, last_offset = 5, committed_offset = 2\<rparr>)
       = 9223372036854775807"
  by (simp add: initial_restriction_def get_committed_position_def in_range_def
      sys_maxsize_def)

text \<open>
  C8. In an iteration where \<^verbatim>\<open>poll()\<close> yields an offset: if \<^verbatim>\<open>try_claim(offset)\<close> succeeds,
  the iteration yields the pair of the id of the partition and the message
  \<^verbatim>\<open>Processed: {offset}   Last: {size}\<close>, the size being that of the partition before the
  commit, and commits, so that the committed offset is one higher afterwards and the pair
  is the first that the loop yields from there; if the claim fails, the loop returns, with
  nothing yielded and the partition as it was.
\<close>

theorem process_iter_claim:
  assumes "fst (poll (element s)) = Some offset"
  shows "(fst (claim (tracker s) offset) \<longrightarrow>
            process_iter claim e s =
              Continue (Some (id_p (element s),
                  ''Processed: '' @ str_int offset @ ''   Last: ''
                    @ str_int (size_p (element s))))
                (simulate_new_messages e (Some offset)
                  (s\<lparr>tracker := snd (claim (tracker s) offset),
                     element := commit (element s)\<rparr>))
            \<and> (\<forall>s'. process_iter claim e s
                       = Continue (Some (id_p (element s),
                           ''Processed: '' @ str_int offset @ ''   Last: ''
                             @ str_int (size_p (element s)))) s' \<longrightarrow>
                   committed_offset (element s') = committed_offset (element s) + 1)
            \<and> fst (process_loop claim (e # es) s) \<noteq> []
            \<and> hd (fst (process_loop claim (e # es) s))
                = (id_p (element s),
                   ''Processed: '' @ str_int offset @ ''   Last: ''
                     @ str_int (size_p (element s))))
       \<and> (\<not> fst (claim (tracker s) offset) \<longrightarrow>
            process_iter claim e s = Return (s\<lparr>tracker := snd (claim (tracker s) offset)\<rparr>)
            \<and> process_loop claim (e # es) s
                = ([], s\<lparr>tracker := snd (claim (tracker s) offset)\<rparr>, True))"
proof (cases "claim (tracker s) offset")
  case (Pair claimed tracker1)
  from assms have polled: "poll (element s) = (Some offset, element s)"
    by (simp add: poll_def Let_def split: if_splits)
  show ?thesis
  proof (cases claimed)
    case True
    with Pair polled have iter: "process_iter claim e s =
        Continue (Some (id_p (element s),
            ''Processed: '' @ str_int offset @ ''   Last: '' @ str_int (size_p (element s))))
          (simulate_new_messages e (Some offset)
            (s\<lparr>tracker := tracker1, element := commit (element s)\<rparr>))"
      by (simp add: process_iter_def Let_def)
    have "committed_offset (element (simulate_new_messages e (Some offset)
            (s\<lparr>tracker := tracker1, element := commit (element s)\<rparr>)))
          = committed_offset (element s) + 1"
      by (simp add: simulate_new_messages_def dofn_add_new_messages_def
          add_new_messages_def commit_def Let_def)
    with iter Pair True show ?thesis
      by (simp split: prod.splits)
  next
    case False
    with Pair polled have "process_iter claim e s = Return (s\<lparr>tracker := tracker1\<rparr>)"
      by (simp add: process_iter_def Let_def)
    with Pair False show ?thesis
      by simp
  qed
qed

theorem process_iter_claim_witness:
  "process_iter try_claim \<lparr>coin = 1 / 2, pick = 7\<rparr>
     \<lparr>element = \<lparr>id_p = 0, last_offset = 5, committed_offset = 2\<rparr>,
      tracker = \<lparr>range_t = \<lparr>start = 3, stop = 10\<rparr>, last_claim_attempt = None,
        checkpointed = False\<rparr>,
      n_times_empty = 0\<rparr>
   = Continue (Some (0, ''Processed: 3   Last: 6''))
       \<lparr>element = \<lparr>id_p = 0, last_offset = 5, committed_offset = 3\<rparr>,
        tracker = \<lparr>range_t = \<lparr>start = 3, stop = 10\<rparr>, last_claim_attempt = Some 3,
          checkpointed = False\<rparr>,
        n_times_empty = 0\<rparr>
   \<and> process_iter try_claim \<lparr>coin = 1 / 2, pick = 7\<rparr>
     \<lparr>element = \<lparr>id_p = 0, last_offset = 5, committed_offset = 3\<rparr>,
      tracker = \<lparr>range_t = \<lparr>start = 3, stop = 4\<rparr>, last_claim_attempt = Some 3,
        checkpointed = False\<rparr>,
      n_times_empty = 0\<rparr>
   = Return
       \<lparr>element = \<lparr>id_p = 0, last_offset = 5, committed_offset = 3\<rparr>,
        tracker = \<lparr>range_t = \<lparr>start = 3, stop = 4\<rparr>, last_claim_attempt = Some 3,
          checkpointed = False\<rparr>,
        n_times_empty = 0\<rparr>"
  using process_iter_claim [of
      "\<lparr>element = \<lparr>id_p = 0, last_offset = 5, committed_offset = 2\<rparr>,
        tracker = \<lparr>range_t = \<lparr>start = 3, stop = 10\<rparr>, last_claim_attempt = None,
          checkpointed = False\<rparr>,
        n_times_empty = 0\<rparr>" 3 try_claim "\<lparr>coin = 1 / 2, pick = 7\<rparr>" "[]"]
    process_iter_claim [of
      "\<lparr>element = \<lparr>id_p = 0, last_offset = 5, committed_offset = 3\<rparr>,
        tracker = \<lparr>range_t = \<lparr>start = 3, stop = 4\<rparr>, last_claim_attempt = Some 3,
          checkpointed = False\<rparr>,
        n_times_empty = 0\<rparr>" 4 try_claim "\<lparr>coin = 1 / 2, pick = 7\<rparr>" "[]"]
  by (simp add: poll_def try_claim_def size_p_def commit_def str_int_def str_nat.simps
      simulate_new_messages_def MAX_EMPTY_POLLS_def PROB_NEW_MSGS_def)

end
